theory Spec2Isabelle
  imports Main "HOL-Library.Word"
begin

section \<open>Data model of the background script\<close>

text \<open>
  Strings are byte strings (the UTF-8 form of the script's text); the script only tests
  them for emptiness and equality, compares them after lower-casing, and concatenates
  them. Tab identifiers are the host's integers.
\<close>

type_synonym tab_id = int

type_synonym array_buffer = "8 word list"

text \<open>A header edit of the panel: the elements of \<^verbatim>\<open>message.data.headers\<close>.\<close>

record header_edit =
  enabled :: bool
  name :: string
  value' :: string
  removeIfEmptyValue :: bool
  createdAt :: nat

text \<open>\<^verbatim>\<open>browser.DeclarativeNetRequest.ModifyHeaderInfo\<close>: the \<^verbatim>\<open>value\<close> key is absent from a remove directive.\<close>

datatype header_operation = SetHeader | RemoveHeader

record modify_header_info =
  header :: string
  operation :: header_operation
  info_value :: "string option"

record rule_action =
  action_type :: string
  requestHeaders :: "modify_header_info list"

record rule_condition =
  tabIds :: "tab_id list"
  resourceTypes :: "string list"

record rule =
  rule_id :: tab_id
  action :: rule_action
  condition :: rule_condition

text \<open>\<^verbatim>\<open>UpdateRuleOptions\<close>: \<^verbatim>\<open>addRules\<close> is an optional key.\<close>

record update_rule_options =
  removeRuleIds :: "tab_id list"
  addRules :: "rule list option"

record request_body =
  enctype :: string
  content :: string

text \<open>\<^verbatim>\<open>BrowseRequest\<close>: the snapshot of a request, captured or edited.\<close>

record browse_request =
  url :: string
  method' :: string
  headers :: "header_edit list"
  body :: request_body

text \<open>
  A body processor of \<^verbatim>\<open>../processors\<close>, seen through the three getters the script calls.
  The registry and the list of methods that carry a body (\<^verbatim>\<open>../utils/constants\<close>) are
  parameters of the model: the script works with whatever they hold. So are the host's
  \<^verbatim>\<open>TextDecoder\<close> and the answer of the page to a submitted request (\<^verbatim>\<open>null\<close> or an
  error string).
\<close>

record processor =
  getName :: string
  getFormEnctype :: string
  getHttpContentType :: string

record environment =
  BodyAvailableMethods :: "string list"
  find_processor :: "string \<Rightarrow> processor option"
  findByContentType :: "string \<Rightarrow> processor option"
  getDefaultProcessor :: processor
  getDefaultProcessorName :: string
  decode :: "array_buffer \<Rightarrow> string"
  sendMessage_reply :: "tab_id \<Rightarrow> browse_request \<Rightarrow> string option"

section \<open>Rule Engine: the execute branch of handleMessage\<close>

datatype fault = UnsupportedEnctype | UndefinedDereference

text \<open>
  Lines 76-93: \<^verbatim>\<open>modifiedHeaders\<close> is the message's own header array; for a method that
  carries a body the processor is looked up, the lookup's failure is thrown, and one
  content-type edit is pushed when the processor's form enctype is not its HTTP content type.
\<close>

definition synthetic_header :: "processor \<Rightarrow> header_edit" where
  "synthetic_header p =
     \<lparr>enabled = True, name = ''content-type'', value' = getHttpContentType p,
      removeIfEmptyValue = False, createdAt = 0\<rparr>"

definition modifiedHeaders :: "environment \<Rightarrow> browse_request \<Rightarrow> fault + header_edit list" where
  "modifiedHeaders env d =
     (if method' d \<in> set (BodyAvailableMethods env) then
        (case find_processor env (enctype (body d)) of
           None \<Rightarrow> Inl UnsupportedEnctype
         | Some p \<Rightarrow>
             if getFormEnctype p \<noteq> getHttpContentType p
             then Inr (headers d @ [synthetic_header p])
             else Inr (headers d))
      else Inr (headers d))"

text \<open>Lines 95-110: the filter and the map over the header edits.\<close>

definition retained :: "header_edit \<Rightarrow> bool" where
  "retained h = (enabled h \<and> length (name h) > 0)"

definition directive :: "header_edit \<Rightarrow> modify_header_info" where
  "directive h =
     (if length (value' h) \<noteq> 0 \<or> \<not> removeIfEmptyValue h
      then \<lparr>header = name h, operation = SetHeader, info_value = Some (value' h)\<rparr>
      else \<lparr>header = name h, operation = RemoveHeader, info_value = None\<rparr>)"

definition sessionRules :: "header_edit list \<Rightarrow> modify_header_info list" where
  "sessionRules hs = map directive (filter retained hs)"

text \<open>Lines 111-129: the options of the rule update.\<close>

definition updateRuleOptions :: "tab_id \<Rightarrow> modify_header_info list \<Rightarrow> update_rule_options" where
  "updateRuleOptions tabId rs =
     (if length rs > 0
      then \<lparr>removeRuleIds = [tabId],
            addRules = Some [\<lparr>rule_id = tabId,
                              action = \<lparr>action_type = ''modifyHeaders'', requestHeaders = rs\<rparr>,
                              condition = \<lparr>tabIds = [tabId], resourceTypes = [''main_frame'']\<rparr>\<rparr>]\<rparr>
      else \<lparr>removeRuleIds = [tabId], addRules = None\<rparr>)"

section \<open>Session store, host and control channel\<close>

type_synonym port = nat

text \<open>What the script posts to a control-channel port, and what it receives from one.\<close>

record test_data =
  data_action :: string
  data_script :: "string option"

datatype devtools_message =
  DevtoolsLoadMessage "browse_request option"
| DevtoolsErrorMessage string
| DevtoolsTestMessage test_data
| DevtoolsCommandMessage string

datatype background_message =
  BackgroundLoadMessage tab_id
| BackgroundExecuteMessage tab_id browse_request
| BackgroundTestMessage tab_id test_data

fun message_tabId :: "background_message \<Rightarrow> tab_id" where
  "message_tabId (BackgroundLoadMessage t) = t"
| "message_tabId (BackgroundExecuteMessage t d) = t"
| "message_tabId (BackgroundTestMessage t d) = t"

record tab_store =
  connections :: "tab_id \<Rightarrow> port option"
  browseRequests :: "tab_id \<Rightarrow> browse_request option"

definition getConnection :: "tab_store \<Rightarrow> tab_id \<Rightarrow> port option" where
  \<comment> \<open>Modelled from the spec: \<^verbatim>\<open>tabStore.getConnection\<close> of \<^verbatim>\<open>./store\<close>, which is not among
      the sources. The store maps a session identifier to its control-channel peer and has
      no logic beyond storage; an identifier without a peer gives \<^verbatim>\<open>undefined\<close>.\<close>
  "getConnection st t = connections st t"

definition updateConnection :: "tab_store \<Rightarrow> tab_id \<Rightarrow> port \<Rightarrow> tab_store" where
  \<comment> \<open>Modelled from the spec: \<^verbatim>\<open>tabStore.updateConnection\<close> of \<^verbatim>\<open>./store\<close>: the peer of the
      identifier is overwritten, the entry created at the first attachment.\<close>
  "updateConnection st t c = st\<lparr>connections := (connections st)(t \<mapsto> c)\<rparr>"

definition getBrowseRequest :: "tab_store \<Rightarrow> tab_id \<Rightarrow> browse_request option" where
  \<comment> \<open>Modelled from the spec: \<^verbatim>\<open>tabStore.getBrowseRequest\<close> of \<^verbatim>\<open>./store\<close>: the captured
      snapshot of the identifier, \<^verbatim>\<open>undefined\<close> when none was written.\<close>
  "getBrowseRequest st t = browseRequests st t"

definition updateBrowseRequest :: "tab_store \<Rightarrow> tab_id \<Rightarrow> browse_request \<Rightarrow> tab_store" where
  \<comment> \<open>Modelled from the spec: \<^verbatim>\<open>tabStore.updateBrowseRequest\<close> of \<^verbatim>\<open>./store\<close>: the snapshot
      of the identifier is written or overwritten, never accumulated.\<close>
  "updateBrowseRequest st t r = st\<lparr>browseRequests := (browseRequests st)(t \<mapsto> r)\<rparr>"

definition remove_tab :: "tab_store \<Rightarrow> tab_id \<Rightarrow> tab_store" where
  \<comment> \<open>Modelled from the spec: \<^verbatim>\<open>tabStore.remove\<close> of \<^verbatim>\<open>./store\<close>: the entry of the identifier
      (snapshot and peer) is removed; the store has no logic beyond storage.\<close>
  "remove_tab st t =
     st\<lparr>connections := (connections st)(t := None),
        browseRequests := (browseRequests st)(t := None)\<rparr>"

text \<open>
  The calls the script makes on the host, in the order it makes them. The payload of
  \<^verbatim>\<open>browser.tabs.sendMessage\<close> is the edited request or the test data.
\<close>

datatype payload = RequestPayload browse_request | TestPayload test_data

datatype host_call =
  UpdateSessionRules update_rule_options
| ExecuteScript tab_id "string option list"
| TabsSendMessage tab_id payload
| TabsUpdate tab_id string

text \<open>
  The state the handlers read and write: the session store, the host's table of session
  rules, the messages posted to control-channel ports and the host calls made so far.
  A handler is run to its end on the state it finds; a host call resolves.
\<close>

record state =
  tabStore :: tab_store
  activeRules :: "rule list"
  posted :: "(port \<times> devtools_message) list"
  hostCalls :: "host_call list"

type_synonym handler_result = "fault option \<times> state"

text \<open>
  The host's \<^verbatim>\<open>declarativeNetRequest.updateSessionRules\<close>, by its contract: the rules
  whose ids are listed in \<^verbatim>\<open>removeRuleIds\<close> are removed first, then the rules of
  \<^verbatim>\<open>addRules\<close> are added, as one step. An id that names no rule is skipped.
\<close>

definition updateSessionRules :: "update_rule_options \<Rightarrow> state \<Rightarrow> state" where
  "updateSessionRules opts s =
     s\<lparr>activeRules :=
          filter (\<lambda>r. rule_id r \<notin> set (removeRuleIds opts)) (activeRules s) @
          (case addRules opts of None \<Rightarrow> [] | Some rs \<Rightarrow> rs),
       hostCalls := hostCalls s @ [UpdateSessionRules opts]\<rparr>"

definition host_call :: "host_call \<Rightarrow> state \<Rightarrow> state" where
  "host_call c s = s\<lparr>hostCalls := hostCalls s @ [c]\<rparr>"

definition postMessage :: "port \<Rightarrow> devtools_message \<Rightarrow> state \<Rightarrow> state" where
  "postMessage c m s = s\<lparr>posted := posted s @ [(c, m)]\<rparr>"

text \<open>
  Lines 69-167. \<^verbatim>\<open>handleMessage\<close> is an async function: its result here is the outcome
  of the promise it returns. A dereference of \<^verbatim>\<open>undefined\<close> behind a non-null assertion and
  the thrown Error are faults: the handler stops there and its promise is rejected. The pushed
  content-type edit is part of \<^verbatim>\<open>message.data\<close> when that is sent to the page, since
  \<^verbatim>\<open>modifiedHeaders\<close> is the message's own array.
\<close>

fun handleMessage :: "environment \<Rightarrow> background_message \<Rightarrow> state \<Rightarrow> handler_result" where
  "handleMessage env (BackgroundLoadMessage tabId) s =
     (case getConnection (tabStore s) tabId of
        None \<Rightarrow> (Some UndefinedDereference, s)
      | Some c \<Rightarrow>
          (None, postMessage c (DevtoolsLoadMessage (getBrowseRequest (tabStore s) tabId)) s))"
| "handleMessage env (BackgroundExecuteMessage tabId d) s =
     (case modifiedHeaders env d of
        Inl e \<Rightarrow> (Some e, s)
      | Inr hs \<Rightarrow>
          (let s1 = updateSessionRules (updateRuleOptions tabId (sessionRules hs)) s in
           if method' d \<in> set (BodyAvailableMethods env) then
             (let s2 = host_call (ExecuteScript tabId [Some ''core/post.js'']) s1;
                  s3 = host_call (TabsSendMessage tabId (RequestPayload (d\<lparr>headers := hs\<rparr>))) s2
              in case sendMessage_reply env tabId (d\<lparr>headers := hs\<rparr>) of
                   None \<Rightarrow> (None, s3)
                 | Some err \<Rightarrow>
                     (case getConnection (tabStore s3) tabId of
                        None \<Rightarrow> (Some UndefinedDereference, s3)
                      | Some c \<Rightarrow> (None, postMessage c (DevtoolsErrorMessage err) s3)))
           else (None, host_call (TabsUpdate tabId (url d)) s1)))"
| "handleMessage env (BackgroundTestMessage tabId t) s =
     (let s1 = (if data_action t = ''start''
                then host_call (ExecuteScript tabId [data_script t]) s else s)
      in (None, host_call (TabsSendMessage tabId (TestPayload t)) s1))"

text \<open>
  Lines 169-179: the listener of a control-channel connection. It attaches the port as the
  peer of the message's tab and calls \<^verbatim>\<open>handleMessage\<close> without awaiting or catching its
  promise: a rejection of the handler goes unhandled and the listener itself returns
  normally, with the state the handler left.
\<close>

definition devToolsListener ::
  "environment \<Rightarrow> port \<Rightarrow> background_message \<Rightarrow> state \<Rightarrow> handler_result" where
  "devToolsListener env devToolsConnection message s =
     (None,
      snd (handleMessage env message
             (s\<lparr>tabStore :=
                  updateConnection (tabStore s) (message_tabId message) devToolsConnection\<rparr>)))"

text \<open>Lines 275-303: the one handler of the redirect, completed and errored events.\<close>

definition handleResponseCompleted :: "tab_id \<Rightarrow> state \<Rightarrow> handler_result" where
  "handleResponseCompleted tabId s =
     (None, updateSessionRules \<lparr>removeRuleIds = [tabId], addRules = None\<rparr> s)"

text \<open>Lines 305-307: the listener of tab removal.\<close>

definition onRemoved :: "tab_id \<Rightarrow> state \<Rightarrow> handler_result" where
  "onRemoved tabId s = (None, s\<lparr>tabStore := remove_tab (tabStore s) tabId\<rparr>)"

section \<open>Capture Listener and Encoding Resolver\<close>

text \<open>
  The host's event objects. \<^verbatim>\<open>formData\<close> is an object from field names to arrays of
  values, given as the list of its keys in the order \<^verbatim>\<open>for ... in\<close> visits them.
\<close>

datatype form_value = FormString string | FormBuffer array_buffer

record upload_data =
  bytes :: "array_buffer option"
  file' :: "string option"

record web_request_body =
  formData :: "(string \<times> form_value list) list option"
  raw :: "upload_data list option"

record before_request_details =
  details_tabId :: tab_id
  details_url :: string
  details_method :: string
  requestBody :: "web_request_body option"

record http_header =
  header_name :: string
  header_value :: "string option"

record before_send_headers_details =
  send_tabId :: tab_id
  send_requestHeaders :: "http_header list option"

text \<open>
  \<^verbatim>\<open>toLowerCase\<close> and \<^verbatim>\<open>toUpperCase\<close> on the ASCII letters; header names and request
  methods are ASCII tokens.
\<close>

definition toLowerCase :: "string \<Rightarrow> string" where
  "toLowerCase = map (\<lambda>c. let n = (of_char c :: nat)
                           in if 65 \<le> n \<and> n \<le> 90 then char_of (n + 32) else c)"

definition toUpperCase :: "string \<Rightarrow> string" where
  "toUpperCase = map (\<lambda>c. let n = (of_char c :: nat)
                           in if 97 \<le> n \<and> n \<le> 122 then char_of (n - 32) else c)"

text \<open>\<^verbatim>\<open>Array.prototype.join\<close> on an array of strings.\<close>

fun join :: "string \<Rightarrow> string list \<Rightarrow> string" where
  "join sep [] = []"
| "join sep [x] = x"
| "join sep (x # y # ys) = x @ sep @ join sep (y # ys)"

text \<open>
  The host's \<^verbatim>\<open>URLSearchParams\<close>: a list of name/value pairs, \<^verbatim>\<open>append\<close> adds a pair at
  the end, and \<^verbatim>\<open>toString\<close> is the application/x-www-form-urlencoded serializer of the URL
  standard: a byte among the ASCII letters, the digits and \<^verbatim>\<open>* - . _\<close> stands for itself,
  the space is written \<^verbatim>\<open>+\<close>, every other byte is \<^verbatim>\<open>%\<close> and two upper-case hex digits.
\<close>

type_synonym url_search_params = "(string \<times> string) list"

definition append_param :: "url_search_params \<Rightarrow> string \<Rightarrow> string \<Rightarrow> url_search_params" where
  "append_param params n v = params @ [(n, v)]"

definition hex_digit :: "nat \<Rightarrow> char" where
  "hex_digit n = (if n < 10 then char_of (48 + n) else char_of (55 + n))"

definition urlencode_byte :: "char \<Rightarrow> string" where
  "urlencode_byte c =
     (let n = (of_char c :: nat) in
      if n = 32 then ''+''
      else if n = 42 \<or> n = 45 \<or> n = 46 \<or> n = 95 \<or> (48 \<le> n \<and> n \<le> 57) \<or>
              (65 \<le> n \<and> n \<le> 90) \<or> (97 \<le> n \<and> n \<le> 122)
      then [c]
      else [CHR ''%'', hex_digit (n div 16), hex_digit (n mod 16)])"

definition urlencode :: "string \<Rightarrow> string" where
  "urlencode s = concat (map urlencode_byte s)"

definition params_toString :: "url_search_params \<Rightarrow> string" where
  "params_toString params = join ''&'' (map (\<lambda>(n, v). urlencode n @ ''='' @ urlencode v) params)"

text \<open>Lines 205-211: the two loops over the form data, appending to \<^verbatim>\<open>params\<close>.\<close>

definition fieldContent :: "environment \<Rightarrow> form_value \<Rightarrow> string" where
  "fieldContent env v = (case v of FormBuffer b \<Rightarrow> decode env b | FormString t \<Rightarrow> t)"

fun forEach_value ::
  "environment \<Rightarrow> string \<Rightarrow> form_value list \<Rightarrow> url_search_params \<Rightarrow> url_search_params" where
  "forEach_value env n [] params = params"
| "forEach_value env n (v # vs) params =
     forEach_value env n vs (append_param params n (fieldContent env v))"

fun for_in_formData ::
  "environment \<Rightarrow> (string \<times> form_value list) list \<Rightarrow> url_search_params \<Rightarrow> url_search_params" where
  "for_in_formData env [] params = params"
| "for_in_formData env ((n, vs) # fd) params =
     for_in_formData env fd (forEach_value env n vs params)"

text \<open>
  Lines 216-225: the text of one raw segment. \<^verbatim>\<open>data.file\<close> is tested for truth, so an
  empty file name counts as none; an ArrayBuffer is true even when it is empty.
\<close>

definition segment_text :: "environment \<Rightarrow> upload_data \<Rightarrow> string" where
  "segment_text env d =
     (case file' d of
        Some f \<Rightarrow>
          if f \<noteq> [] then ''[Content of '' @ [CHR 0x27] @ f @ [CHR 0x27] @ '']''
          else (case bytes d of None \<Rightarrow> [] | Some b \<Rightarrow> decode env b)
      | None \<Rightarrow> (case bytes d of None \<Rightarrow> [] | Some b \<Rightarrow> decode env b))"

text \<open>Lines 199-227: \<^verbatim>\<open>bodyContent\<close>.\<close>

definition bodyContent :: "environment \<Rightarrow> web_request_body option \<Rightarrow> string" where
  "bodyContent env rb =
     (case rb of
        None \<Rightarrow> []
      | Some b \<Rightarrow>
          (case formData b of
             Some fd \<Rightarrow> params_toString (for_in_formData env fd [])
           | None \<Rightarrow>
               (case raw b of
                  Some segs \<Rightarrow> join [] (map (segment_text env) segs)
                | None \<Rightarrow> [])))"

text \<open>Lines 197-241: the listener of the request-initiation event.\<close>

definition onBeforeRequest :: "environment \<Rightarrow> before_request_details \<Rightarrow> state \<Rightarrow> handler_result" where
  "onBeforeRequest env details s =
     (None,
      s\<lparr>tabStore :=
          updateBrowseRequest (tabStore s) (details_tabId details)
            \<lparr>url = details_url details,
             method' = toUpperCase (details_method details),
             headers = [],
             body = \<lparr>enctype = getDefaultProcessorName env,
                     content = bodyContent env (requestBody details)\<rparr>\<rparr>\<rparr>)"

text \<open>Lines 251-267: the listener of the header-send event.\<close>

definition contentTypeHeader :: "before_send_headers_details \<Rightarrow> http_header option" where
  "contentTypeHeader details =
     (case send_requestHeaders details of
        None \<Rightarrow> None
      | Some hs \<Rightarrow> List.find (\<lambda>h. toLowerCase (header_name h) = ''content-type'') hs)"

definition onBeforeSendHeaders ::
  "environment \<Rightarrow> before_send_headers_details \<Rightarrow> state \<Rightarrow> handler_result" where
  "onBeforeSendHeaders env details s =
     (case contentTypeHeader details of
        None \<Rightarrow> (None, s)
      | Some h \<Rightarrow>
          (case getBrowseRequest (tabStore s) (send_tabId details) of
             None \<Rightarrow> (Some UndefinedDereference, s)
           | Some request \<Rightarrow>
               (let processor =
                      (case findByContentType env (case header_value h of None \<Rightarrow> [] | Some v \<Rightarrow> v) of
                         Some p \<Rightarrow> p
                       | None \<Rightarrow> getDefaultProcessor env);
                    request' = request\<lparr>body := (body request)\<lparr>enctype := getName processor\<rparr>\<rparr>
                in (None,
                    s\<lparr>tabStore :=
                        updateBrowseRequest (tabStore s) (send_tabId details) request'\<rparr>))))"

section \<open>Events\<close>

text \<open>
  The listeners the script registers (lines 169-179, 197-247, 251-273, 292-303, 305-307), as
  one dispatch over the events of the host. The three terminal events of a request share
  one handler. A run takes the events one after the other; a handler that faults leaves
  the state it had reached, and the next event is handled all the same.
\<close>

datatype event =
  ControlMessage port background_message
| BeforeRequest before_request_details
| BeforeSendHeaders before_send_headers_details
| BeforeRedirect tab_id
| Completed tab_id
| ErrorOccurred tab_id
| TabRemoved tab_id

fun dispatch :: "environment \<Rightarrow> event \<Rightarrow> state \<Rightarrow> handler_result" where
  "dispatch env (ControlMessage c m) s = devToolsListener env c m s"
| "dispatch env (BeforeRequest d) s = onBeforeRequest env d s"
| "dispatch env (BeforeSendHeaders d) s = onBeforeSendHeaders env d s"
| "dispatch env (BeforeRedirect t) s = handleResponseCompleted t s"
| "dispatch env (Completed t) s = handleResponseCompleted t s"
| "dispatch env (ErrorOccurred t) s = handleResponseCompleted t s"
| "dispatch env (TabRemoved t) s = onRemoved t s"

fun run :: "environment \<Rightarrow> event list \<Rightarrow> state \<Rightarrow> state" where
  "run env [] s = s"
| "run env (ev # evs) s = run env evs (snd (dispatch env ev s))"

definition initial_state :: state where
  "initial_state =
     \<lparr>tabStore = \<lparr>connections = (\<lambda>t. None), browseRequests = (\<lambda>t. None)\<rparr>,
      activeRules = [], posted = [], hostCalls = []\<rparr>"

section \<open>A registry and requests to run the script on\<close>

text \<open>
  Two processors: the default one, whose form enctype is its content type, and a JSON one
  that is submitted as a text/plain form and needs its content type set by a rule. The
  decoder reads every byte as the character of that code, as the host's does on ASCII.
\<close>

definition urlencoded_processor :: processor where
  "urlencoded_processor =
     \<lparr>getName = ''application/x-www-form-urlencoded'',
      getFormEnctype = ''application/x-www-form-urlencoded'',
      getHttpContentType = ''application/x-www-form-urlencoded''\<rparr>"

definition json_processor :: processor where
  "json_processor =
     \<lparr>getName = ''application/json'',
      getFormEnctype = ''text/plain'',
      getHttpContentType = ''application/json''\<rparr>"

definition example_env :: environment where
  "example_env =
     \<lparr>BodyAvailableMethods = [''POST''],
      find_processor =
        (\<lambda>n. if n = ''application/json'' then Some json_processor
             else if n = ''application/x-www-form-urlencoded'' then Some urlencoded_processor
             else None),
      findByContentType =
        (\<lambda>n. if n = ''application/json'' then Some json_processor else None),
      getDefaultProcessor = urlencoded_processor,
      getDefaultProcessorName = ''application/x-www-form-urlencoded'',
      decode = map (\<lambda>w. char_of (unat w)),
      sendMessage_reply = (\<lambda>t d. None)\<rparr>"

definition example_headers :: "header_edit list" where
  "example_headers =
     [\<lparr>enabled = True, name = ''x-a'', value' = ''1'', removeIfEmptyValue = True, createdAt = 1\<rparr>,
      \<lparr>enabled = False, name = ''x-d'', value' = ''4'', removeIfEmptyValue = False, createdAt = 2\<rparr>]"

definition example_request :: "string \<Rightarrow> string \<Rightarrow> header_edit list \<Rightarrow> browse_request" where
  "example_request m e hs =
     \<lparr>url = ''http://example.test/'', method' = m, headers = hs,
      body = \<lparr>enctype = e, content = ''{}''\<rparr>\<rparr>"

definition example_rule :: "tab_id \<Rightarrow> rule" where
  "example_rule t =
     \<lparr>rule_id = t,
      action = \<lparr>action_type = ''modifyHeaders'',
                requestHeaders = [\<lparr>header = ''x-a'', operation = SetHeader, info_value = Some ''1''\<rparr>]\<rparr>,
      condition = \<lparr>tabIds = [t], resourceTypes = [''main_frame'']\<rparr>\<rparr>"

definition content_type_details :: "tab_id \<Rightarrow> before_send_headers_details" where
  "content_type_details t =
     \<lparr>send_tabId = t,
      send_requestHeaders =
        Some [\<lparr>header_name = ''Accept'', header_value = Some ''*/*''\<rparr>,
              \<lparr>header_name = ''Content-Type'', header_value = Some ''application/json''\<rparr>]\<rparr>"

section \<open>Header directives\<close>

text \<open>
  C1. Every header edit that is enabled and has a non-empty name yields exactly one
  directive, in the order of the edits: a set directive with the edit's value when the
  value is non-empty or the remove-if-empty flag is false, a remove directive when the
  value is empty and the flag is true. An edit that is disabled or has an empty name
  yields no directive.
\<close>

theorem sessionRules_per_edit:
  "sessionRules [] = [] \<and>
   sessionRules (h # hs) =
     (if enabled h \<and> name h \<noteq> ''''
      then [if value' h \<noteq> '''' \<or> \<not> removeIfEmptyValue h
            then \<lparr>header = name h, operation = SetHeader, info_value = Some (value' h)\<rparr>
            else \<lparr>header = name h, operation = RemoveHeader, info_value = None\<rparr>]
      else []) @ sessionRules hs"
  by (simp add: sessionRules_def retained_def directive_def)

theorem sessionRules_per_edit_witness:
  "sessionRules
     [\<lparr>enabled = True, name = ''x-a'', value' = ''1'', removeIfEmptyValue = True, createdAt = 1\<rparr>,
      \<lparr>enabled = True, name = ''x-b'', value' = '''', removeIfEmptyValue = True, createdAt = 2\<rparr>,
      \<lparr>enabled = True, name = ''x-c'', value' = '''', removeIfEmptyValue = False, createdAt = 3\<rparr>,
      \<lparr>enabled = False, name = ''x-d'', value' = ''4'', removeIfEmptyValue = False, createdAt = 4\<rparr>,
      \<lparr>enabled = True, name = '''', value' = ''5'', removeIfEmptyValue = False, createdAt = 5\<rparr>]
   = [\<lparr>header = ''x-a'', operation = SetHeader, info_value = Some ''1''\<rparr>,
      \<lparr>header = ''x-b'', operation = RemoveHeader, info_value = None\<rparr>,
      \<lparr>header = ''x-c'', operation = SetHeader, info_value = Some ''''\<rparr>]"
  using sessionRules_per_edit
  by simp

section \<open>Facts shared by the proofs\<close>

lemma sessionRules_append: "sessionRules (xs @ ys) = sessionRules xs @ sessionRules ys"
  by (simp add: sessionRules_def)

lemma sessionRules_synthetic:
  "sessionRules
     [\<lparr>enabled = True, name = ''content-type'', value' = w, removeIfEmptyValue = False,
       createdAt = 0\<rparr>] =
   [\<lparr>header = ''content-type'', operation = SetHeader, info_value = Some w\<rparr>]"
  by (simp add: sessionRules_def retained_def directive_def)

lemma sessionRules_example:
  "sessionRules example_headers =
     [\<lparr>header = ''x-a'', operation = SetHeader, info_value = Some ''1''\<rparr>]"
  by (simp add: sessionRules_def example_headers_def retained_def directive_def)

lemma filter_other_then_same:
  "filter (\<lambda>r. rule_id r = t) (filter (\<lambda>r. rule_id r \<noteq> t) rs) = []"
  by (induction rs) auto

lemma filter_other_absent:
  "filter (\<lambda>r. rule_id r = t) rs = [] \<Longrightarrow> filter (\<lambda>r. rule_id r \<noteq> t) rs = rs"
  by (induction rs) (auto split: if_splits)

lemma activeRules_updateSessionRules:
  "activeRules (updateSessionRules (updateRuleOptions t ds) s) =
     filter (\<lambda>r. rule_id r \<noteq> t) (activeRules s) @
     (if ds = [] then []
      else [\<lparr>rule_id = t,
             action = \<lparr>action_type = ''modifyHeaders'', requestHeaders = ds\<rparr>,
             condition = \<lparr>tabIds = [t], resourceTypes = [''main_frame'']\<rparr>\<rparr>])"
  by (simp add: updateSessionRules_def updateRuleOptions_def)

lemma activeRules_handleMessage_execute:
  "modifiedHeaders env d = Inr hs \<Longrightarrow>
   activeRules (snd (handleMessage env (BackgroundExecuteMessage t d) s)) =
     activeRules (updateSessionRules (updateRuleOptions t (sessionRules hs)) s)"
  by (simp add: Let_def host_call_def postMessage_def split: option.splits)

lemma hostCalls_handleMessage_execute:
  "modifiedHeaders env d = Inr hs \<Longrightarrow>
   take (Suc (length (hostCalls s)))
     (hostCalls (snd (handleMessage env (BackgroundExecuteMessage t d) s))) =
   hostCalls s @ [UpdateSessionRules (updateRuleOptions t (sessionRules hs))]"
  by (simp add: Let_def host_call_def postMessage_def updateSessionRules_def
      split: option.splits)

lemma distinct_after_update:
  assumes "distinct (map rule_id (activeRules s))"
  shows "distinct (map rule_id (activeRules (updateSessionRules (updateRuleOptions t ds) s)))"
proof -
  have "distinct (map rule_id (filter (\<lambda>r. rule_id r \<noteq> t) (activeRules s)))"
    using assms by (rule distinct_map_filter)
  then show ?thesis
    by (auto simp: activeRules_updateSessionRules)
qed

lemma distinct_after_handleMessage:
  assumes "distinct (map rule_id (activeRules s))"
  shows "distinct (map rule_id (activeRules (snd (handleMessage env m s))))"
proof (cases m)
  case (BackgroundLoadMessage t)
  with assms show ?thesis
    by (simp add: postMessage_def split: option.splits)
next
  case (BackgroundExecuteMessage t d)
  show ?thesis
  proof (cases "modifiedHeaders env d")
    case (Inl e)
    with assms BackgroundExecuteMessage show ?thesis by simp
  next
    case (Inr hs)
    have "distinct (map rule_id (activeRules (updateSessionRules (updateRuleOptions t (sessionRules hs)) s)))"
      using assms by (rule distinct_after_update)
    then show ?thesis
      unfolding BackgroundExecuteMessage activeRules_handleMessage_execute [OF Inr] .
  qed
next
  case (BackgroundTestMessage t d)
  with assms show ?thesis
    by (simp add: host_call_def)
qed

lemma distinct_after_dispatch:
  assumes "distinct (map rule_id (activeRules s))"
  shows "distinct (map rule_id (activeRules (snd (dispatch env ev s))))"
proof (cases ev)
  case (ControlMessage c m)
  have "distinct (map rule_id (activeRules
          (s\<lparr>tabStore := updateConnection (tabStore s) (message_tabId m) c\<rparr>)))"
    using assms by simp
  then show ?thesis
    unfolding ControlMessage dispatch.simps devToolsListener_def snd_conv
    by (rule distinct_after_handleMessage)
next
  case (BeforeRequest d)
  with assms show ?thesis by (simp add: onBeforeRequest_def)
next
  case (BeforeSendHeaders d)
  with assms show ?thesis
    by (simp add: onBeforeSendHeaders_def Let_def split: option.splits)
next
  case (BeforeRedirect t)
  with assms show ?thesis
    by (simp add: handleResponseCompleted_def updateSessionRules_def distinct_map_filter)
next
  case (Completed t)
  with assms show ?thesis
    by (simp add: handleResponseCompleted_def updateSessionRules_def distinct_map_filter)
next
  case (ErrorOccurred t)
  with assms show ?thesis
    by (simp add: handleResponseCompleted_def updateSessionRules_def distinct_map_filter)
next
  case (TabRemoved t)
  with assms show ?thesis by (simp add: onRemoved_def)
qed

lemma distinct_after_run:
  "distinct (map rule_id (activeRules s)) \<Longrightarrow>
   distinct (map rule_id (activeRules (run env evs s)))"
  by (induction evs arbitrary: s) (simp_all add: distinct_after_dispatch)

lemma example_method_carries_body:
  "method' (example_request ''POST'' e hs) \<in> set (BodyAvailableMethods example_env)"
  by (simp add: example_request_def example_env_def)

lemma example_find_json:
  "find_processor example_env (enctype (body (example_request m ''application/json'' hs))) =
     Some json_processor"
  by (simp add: example_request_def example_env_def)

lemma example_find_unknown:
  "find_processor example_env (enctype (body (example_request m ''text/xml'' hs))) = None"
  by (simp add: example_request_def example_env_def)

section \<open>The synthetic content-type edit\<close>

text \<open>
  C2. When the method of an execute message carries a body and its enctype names a
  processor, the header edits handed to the directive computation are the message's edits
  followed by exactly one synthetic edit (enabled, content-type, the processor's HTTP
  content type, remove-if-empty false) if the processor's form enctype differs from its
  HTTP content type, and are the message's edits alone if the two are equal. In the first
  case the rule activated for the tab holds the directives of the message's edits followed
  by one set directive for content-type.
\<close>

theorem synthetic_content_type:
  assumes "method' d \<in> set (BodyAvailableMethods env)"
    and "find_processor env (enctype (body d)) = Some p"
  shows "modifiedHeaders env d =
           Inr (headers d @
                (if getFormEnctype p \<noteq> getHttpContentType p
                 then [\<lparr>enabled = True, name = ''content-type'', value' = getHttpContentType p,
                        removeIfEmptyValue = False, createdAt = 0\<rparr>]
                 else [])) \<and>
         activeRules (snd (handleMessage env (BackgroundExecuteMessage t d) s)) =
           filter (\<lambda>r. rule_id r \<noteq> t) (activeRules s) @
           (if getFormEnctype p \<noteq> getHttpContentType p
            then [\<lparr>rule_id = t,
                   action = \<lparr>action_type = ''modifyHeaders'',
                             requestHeaders =
                               sessionRules (headers d) @
                               [\<lparr>header = ''content-type'', operation = SetHeader,
                                 info_value = Some (getHttpContentType p)\<rparr>]\<rparr>,
                   condition = \<lparr>tabIds = [t], resourceTypes = [''main_frame'']\<rparr>\<rparr>]
            else if sessionRules (headers d) = [] then []
            else [\<lparr>rule_id = t,
                   action = \<lparr>action_type = ''modifyHeaders'',
                             requestHeaders = sessionRules (headers d)\<rparr>,
                   condition = \<lparr>tabIds = [t], resourceTypes = [''main_frame'']\<rparr>\<rparr>])"
proof (cases "getFormEnctype p = getHttpContentType p")
  case True
  with assms have m: "modifiedHeaders env d = Inr (headers d)"
    by (simp add: modifiedHeaders_def)
  show ?thesis
    using True m activeRules_handleMessage_execute [OF m, of t s]
    by (simp add: activeRules_updateSessionRules)
next
  case False
  let ?edit = "\<lparr>enabled = True, name = ''content-type'', value' = getHttpContentType p,
                 removeIfEmptyValue = False, createdAt = 0\<rparr>"
  from False assms have m: "modifiedHeaders env d = Inr (headers d @ [?edit])"
    by (simp add: modifiedHeaders_def synthetic_header_def)
  show ?thesis
    using False m activeRules_handleMessage_execute [OF m, of t s]
    by (simp add: activeRules_updateSessionRules sessionRules_append sessionRules_synthetic)
qed

theorem synthetic_content_type_witness:
  "modifiedHeaders example_env (example_request ''POST'' ''application/json'' example_headers) =
     Inr (example_headers @
          [\<lparr>enabled = True, name = ''content-type'', value' = ''application/json'',
            removeIfEmptyValue = False, createdAt = 0\<rparr>]) \<and>
   activeRules (snd (handleMessage example_env
      (BackgroundExecuteMessage 7 (example_request ''POST'' ''application/json'' example_headers))
      initial_state)) =
     [\<lparr>rule_id = 7,
       action = \<lparr>action_type = ''modifyHeaders'',
                 requestHeaders =
                   [\<lparr>header = ''x-a'', operation = SetHeader, info_value = Some ''1''\<rparr>,
                    \<lparr>header = ''content-type'', operation = SetHeader,
                      info_value = Some ''application/json''\<rparr>]\<rparr>,
       condition = \<lparr>tabIds = [7], resourceTypes = [''main_frame'']\<rparr>\<rparr>]"
proof -
  have hs: "headers (example_request ''POST'' ''application/json'' example_headers) = example_headers"
    by (simp add: example_request_def)
  have i: "activeRules initial_state = []"
    by (simp add: initial_state_def)
  have p: "getFormEnctype json_processor = ''text/plain''"
          "getHttpContentType json_processor = ''application/json''"
    by (simp_all add: json_processor_def)
  show ?thesis
    using synthetic_content_type [OF example_method_carries_body example_find_json,
        of example_headers 7 initial_state]
    by (simp add: hs i p sessionRules_example del: handleMessage.simps)
qed

section \<open>Rule replacement\<close>

text \<open>
  C3. When an execute message for tab t reaches the rule update (no unsupported enctype),
  the first host call it makes is a rule update that removes the rule with id t and adds a
  rule exactly when the directive computation gave at least one directive; the added rule
  has id t and is scoped to tab t and main_frame requests. With the host removing before
  adding, the rules with id t afterwards are that one rule or none, the rules of other ids
  are kept, and in every run of the script from the initial state no two active rules
  share an id.
\<close>

theorem rule_update_replaces:
  assumes "modifiedHeaders env d = Inr hs"
  shows "take (Suc (length (hostCalls s)))
           (hostCalls (snd (handleMessage env (BackgroundExecuteMessage t d) s))) =
         hostCalls s @
           [UpdateSessionRules
              \<lparr>removeRuleIds = [t],
               addRules =
                 (if sessionRules hs = [] then None
                  else Some [\<lparr>rule_id = t,
                              action = \<lparr>action_type = ''modifyHeaders'',
                                        requestHeaders = sessionRules hs\<rparr>,
                              condition = \<lparr>tabIds = [t], resourceTypes = [''main_frame'']\<rparr>\<rparr>])\<rparr>] \<and>
         activeRules (snd (handleMessage env (BackgroundExecuteMessage t d) s)) =
           filter (\<lambda>r. rule_id r \<noteq> t) (activeRules s) @
           (if sessionRules hs = [] then []
            else [\<lparr>rule_id = t,
                   action = \<lparr>action_type = ''modifyHeaders'',
                             requestHeaders = sessionRules hs\<rparr>,
                   condition = \<lparr>tabIds = [t], resourceTypes = [''main_frame'']\<rparr>\<rparr>]) \<and>
         length (filter (\<lambda>r. rule_id r = t)
                   (activeRules (snd (handleMessage env (BackgroundExecuteMessage t d) s)))) =
           (if sessionRules hs = [] then 0 else 1) \<and>
         distinct (map rule_id (activeRules (run env evs initial_state)))"
proof -
  have c: "take (Suc (length (hostCalls s)))
             (hostCalls (snd (handleMessage env (BackgroundExecuteMessage t d) s))) =
           hostCalls s @ [UpdateSessionRules (updateRuleOptions t (sessionRules hs))]"
    by (rule hostCalls_handleMessage_execute [OF assms])
  have a: "activeRules (snd (handleMessage env (BackgroundExecuteMessage t d) s)) =
           activeRules (updateSessionRules (updateRuleOptions t (sessionRules hs)) s)"
    by (rule activeRules_handleMessage_execute [OF assms])
  have r: "distinct (map rule_id (activeRules (run env evs initial_state)))"
    by (rule distinct_after_run) (simp add: initial_state_def)
  have o: "updateRuleOptions t (sessionRules hs) =
           \<lparr>removeRuleIds = [t],
            addRules =
              (if sessionRules hs = [] then None
               else Some [\<lparr>rule_id = t,
                           action = \<lparr>action_type = ''modifyHeaders'',
                                     requestHeaders = sessionRules hs\<rparr>,
                           condition = \<lparr>tabIds = [t], resourceTypes = [''main_frame'']\<rparr>\<rparr>])\<rparr>"
    by (simp add: updateRuleOptions_def)
  show ?thesis
    using c a r
    by (simp add: o [symmetric] activeRules_updateSessionRules filter_other_then_same)
qed

theorem rule_update_replaces_witness:
  "take 1 (hostCalls (snd (handleMessage example_env
      (BackgroundExecuteMessage 7
         (example_request ''GET'' ''text/xml''
            [\<lparr>enabled = True, name = ''x-b'', value' = [], removeIfEmptyValue = True,
              createdAt = 3\<rparr>]))
      (initial_state\<lparr>activeRules := [example_rule 7, example_rule 8]\<rparr>)))) =
     [UpdateSessionRules
        \<lparr>removeRuleIds = [7],
         addRules =
           Some [\<lparr>rule_id = 7,
                  action = \<lparr>action_type = ''modifyHeaders'',
                            requestHeaders =
                              [\<lparr>header = ''x-b'', operation = RemoveHeader, info_value = None\<rparr>]\<rparr>,
                  condition = \<lparr>tabIds = [7], resourceTypes = [''main_frame'']\<rparr>\<rparr>]\<rparr>] \<and>
   activeRules (snd (handleMessage example_env
      (BackgroundExecuteMessage 7
         (example_request ''GET'' ''text/xml''
            [\<lparr>enabled = True, name = ''x-b'', value' = [], removeIfEmptyValue = True,
              createdAt = 3\<rparr>]))
      (initial_state\<lparr>activeRules := [example_rule 7, example_rule 8]\<rparr>))) =
     [example_rule 8,
      \<lparr>rule_id = 7,
       action = \<lparr>action_type = ''modifyHeaders'',
                 requestHeaders =
                   [\<lparr>header = ''x-b'', operation = RemoveHeader, info_value = None\<rparr>]\<rparr>,
       condition = \<lparr>tabIds = [7], resourceTypes = [''main_frame'']\<rparr>\<rparr>]"
proof -
  let ?hs = "[\<lparr>enabled = True, name = ''x-b'', value' = [], removeIfEmptyValue = True,
               createdAt = 3\<rparr>]"
  have m: "modifiedHeaders example_env (example_request ''GET'' ''text/xml'' ?hs) = Inr ?hs"
    by (simp add: modifiedHeaders_def example_request_def example_env_def)
  have d: "sessionRules ?hs = [\<lparr>header = ''x-b'', operation = RemoveHeader, info_value = None\<rparr>]"
    by (simp add: sessionRules_def retained_def directive_def)
  have i: "hostCalls (initial_state\<lparr>activeRules := [example_rule 7, example_rule 8]\<rparr>) = []"
    by (simp add: initial_state_def)
  have r: "rule_id (example_rule 7) = 7" "rule_id (example_rule 8) = 8"
    by (simp_all add: example_rule_def)
  show ?thesis
    using rule_update_replaces
        [where t = 7 and evs = "[]"
           and s = "initial_state\<lparr>activeRules := [example_rule 7, example_rule 8]\<rparr>", OF m]
    by (simp add: d i r del: handleMessage.simps)
qed

section \<open>Teardown at the end of a request\<close>

text \<open>
  C4. Each of the three terminal events of a request of tab t (redirect, completed,
  errored) is handled without a fault by one rule update that removes the rule with id t.
  Afterwards no active rule has id t, the rules of other ids and the session store are as
  before, and the removal is idempotent: a further terminal event for t, or a terminal
  event when no rule with id t is active, leaves the active rules as they are.
\<close>

theorem terminal_event_removes_rule:
  assumes "ev \<in> {BeforeRedirect t, Completed t, ErrorOccurred t}"
    and "ev' \<in> {BeforeRedirect t, Completed t, ErrorOccurred t}"
  shows "fst (dispatch env ev s) = None \<and>
         hostCalls (snd (dispatch env ev s)) =
           hostCalls s @ [UpdateSessionRules \<lparr>removeRuleIds = [t], addRules = None\<rparr>] \<and>
         activeRules (snd (dispatch env ev s)) =
           filter (\<lambda>r. rule_id r \<noteq> t) (activeRules s) \<and>
         filter (\<lambda>r. rule_id r = t) (activeRules (snd (dispatch env ev s))) = [] \<and>
         tabStore (snd (dispatch env ev s)) = tabStore s \<and>
         fst (dispatch env ev' (snd (dispatch env ev s))) = None \<and>
         activeRules (snd (dispatch env ev' (snd (dispatch env ev s)))) =
           activeRules (snd (dispatch env ev s)) \<and>
         (filter (\<lambda>r. rule_id r = t) (activeRules s) = [] \<longrightarrow>
            activeRules (snd (dispatch env ev s)) = activeRules s)"
proof -
  have e: "dispatch env ev = handleResponseCompleted t"
    using assms(1) by auto
  have e': "dispatch env ev' = handleResponseCompleted t"
    using assms(2) by auto
  show ?thesis
    unfolding e e'
    by (simp add: handleResponseCompleted_def updateSessionRules_def
        filter_other_then_same filter_other_absent)
qed

theorem terminal_event_removes_rule_witness:
  "fst (dispatch example_env (Completed 7)
          (initial_state\<lparr>activeRules := [example_rule 7, example_rule 8]\<rparr>)) = None \<and>
   activeRules (snd (dispatch example_env (Completed 7)
          (initial_state\<lparr>activeRules := [example_rule 7, example_rule 8]\<rparr>))) =
     [example_rule 8] \<and>
   activeRules (snd (dispatch example_env (ErrorOccurred 7)
          (snd (dispatch example_env (Completed 7)
             (initial_state\<lparr>activeRules := [example_rule 7, example_rule 8]\<rparr>))))) =
     [example_rule 8]"
proof -
  have r: "rule_id (example_rule 7) = 7" "rule_id (example_rule 8) = 8"
    by (simp_all add: example_rule_def)
  have m: "Completed 7 \<in> {BeforeRedirect 7, Completed 7, ErrorOccurred 7}"
          "ErrorOccurred 7 \<in> {BeforeRedirect 7, Completed 7, ErrorOccurred 7}"
    by simp_all
  show ?thesis
    using terminal_event_removes_rule
        [where env = example_env
           and s = "initial_state\<lparr>activeRules := [example_rule 7, example_rule 8]\<rparr>", OF m]
    by (simp add: r del: dispatch.simps)
qed

section \<open>Unsupported enctype\<close>

text \<open>
  C6 as stated fails: the error is not raised to the caller of the execute operation. The
  handler is asynchronous, so its throw rejects the promise it returns; the connection
  listener, its one caller, does not await or catch that promise and returns normally, with
  nothing posted to the peer. Here a POST with the enctype text/xml, which names no
  processor, arrives on port 3 for tab 7.
\<close>

theorem unsupported_enctype_counterexample:
  "fst (handleMessage example_env
          (BackgroundExecuteMessage 7 (example_request ''POST'' ''text/xml'' example_headers))
          (initial_state\<lparr>tabStore := updateConnection (tabStore initial_state) 7 3\<rparr>)) =
     Some UnsupportedEnctype \<and>
   devToolsListener example_env 3
     (BackgroundExecuteMessage 7 (example_request ''POST'' ''text/xml'' example_headers))
     initial_state =
     (None, initial_state\<lparr>tabStore := updateConnection (tabStore initial_state) 7 3\<rparr>)"
  by (simp add: devToolsListener_def modifiedHeaders_def example_request_def example_env_def)

text \<open>
  C6, amended. For an execute message whose method carries a body and whose enctype names
  no processor, the promise of the handler is rejected with Unsupported enctype and the
  state is exactly as it was: no rule update, no script injection, no message to the page
  and no navigation has been called, and the session store and the active rules are
  unchanged. The rejection is not raised to a caller: the connection listener returns
  normally, having attached the port as the peer of the tab and changed nothing else, so
  the snapshots, the active rules, the host calls and the posted messages are as before.
\<close>

theorem unsupported_enctype_aborts:
  assumes "method' d \<in> set (BodyAvailableMethods env)"
    and "find_processor env (enctype (body d)) = None"
  shows "handleMessage env (BackgroundExecuteMessage t d) s = (Some UnsupportedEnctype, s) \<and>
         devToolsListener env c (BackgroundExecuteMessage t d) s =
           (None, s\<lparr>tabStore := updateConnection (tabStore s) t c\<rparr>) \<and>
         getBrowseRequest
           (tabStore (snd (devToolsListener env c (BackgroundExecuteMessage t d) s))) t' =
           getBrowseRequest (tabStore s) t' \<and>
         activeRules (snd (devToolsListener env c (BackgroundExecuteMessage t d) s)) = activeRules s \<and>
         hostCalls (snd (devToolsListener env c (BackgroundExecuteMessage t d) s)) = hostCalls s \<and>
         posted (snd (devToolsListener env c (BackgroundExecuteMessage t d) s)) = posted s"
  using assms
  by (simp add: modifiedHeaders_def devToolsListener_def updateConnection_def
      getBrowseRequest_def)

theorem unsupported_enctype_aborts_witness:
  "handleMessage example_env
     (BackgroundExecuteMessage 7 (example_request ''POST'' ''text/xml'' example_headers))
     (initial_state\<lparr>activeRules := [example_rule 7]\<rparr>) =
   (Some UnsupportedEnctype, initial_state\<lparr>activeRules := [example_rule 7]\<rparr>) \<and>
   activeRules (snd (devToolsListener example_env 3
     (BackgroundExecuteMessage 7 (example_request ''POST'' ''text/xml'' example_headers))
     (initial_state\<lparr>activeRules := [example_rule 7]\<rparr>))) = [example_rule 7]"
proof -
  have a: "activeRules (initial_state\<lparr>activeRules := [example_rule 7]\<rparr>) = [example_rule 7]"
    by simp
  show ?thesis
    using unsupported_enctype_aborts
        [where env = example_env and t = 7 and c = 3
           and d = "example_request ''POST'' ''text/xml'' example_headers"
           and s = "initial_state\<lparr>activeRules := [example_rule 7]\<rparr>",
         OF example_method_carries_body example_find_unknown]
    unfolding a
    by (simp del: handleMessage.simps)
qed

section \<open>The header-send event needs a snapshot\<close>

text \<open>
  C10. When the outgoing headers of a header-send event hold a content-type header, the
  handler takes the stored snapshot of the tab without a test. It faults on the undefined
  dereference, leaving the state as it was, exactly when the store holds no snapshot for
  the tab; with a snapshot it does not fault and overwrites the snapshot's enctype alone.
  In particular it does not fault after a request-initiation event of the same tab.
\<close>

theorem header_send_needs_snapshot:
  assumes "contentTypeHeader details = Some h"
  shows "(fst (onBeforeSendHeaders env details s) = Some UndefinedDereference) =
           (getBrowseRequest (tabStore s) (send_tabId details) = None) \<and>
         (getBrowseRequest (tabStore s) (send_tabId details) = None \<longrightarrow>
            onBeforeSendHeaders env details s = (Some UndefinedDereference, s)) \<and>
         (getBrowseRequest (tabStore s) (send_tabId details) = Some request \<longrightarrow>
            onBeforeSendHeaders env details s =
              (None,
               s\<lparr>tabStore :=
                   updateBrowseRequest (tabStore s) (send_tabId details)
                     (request\<lparr>body := (body request)
                        \<lparr>enctype :=
                           getName
                             (case findByContentType env
                                     (case header_value h of None \<Rightarrow> [] | Some v \<Rightarrow> v) of
                                Some p \<Rightarrow> p
                              | None \<Rightarrow> getDefaultProcessor env)\<rparr>\<rparr>)\<rparr>)) \<and>
         (details_tabId before = send_tabId details \<longrightarrow>
            fst (onBeforeSendHeaders env details (snd (onBeforeRequest env before s))) = None)"
  using assms
  by (simp add: onBeforeSendHeaders_def onBeforeRequest_def getBrowseRequest_def
      updateBrowseRequest_def Let_def split: option.splits)

lemma example_contentTypeHeader:
  "contentTypeHeader (content_type_details t) =
     Some \<lparr>header_name = ''Content-Type'', header_value = Some ''application/json''\<rparr>"
  by (simp add: contentTypeHeader_def content_type_details_def toLowerCase_def char_of_def
      bit_Suc_0_iff)

theorem header_send_needs_snapshot_witness:
  "onBeforeSendHeaders example_env (content_type_details 7) initial_state =
     (Some UndefinedDereference, initial_state) \<and>
   fst (onBeforeSendHeaders example_env (content_type_details 7)
          (snd (onBeforeRequest example_env
                  \<lparr>details_tabId = 7, details_url = ''http://example.test/'',
                   details_method = ''post'', requestBody = None\<rparr>
                  initial_state))) = None"
proof -
  have n: "getBrowseRequest (tabStore initial_state) (send_tabId (content_type_details 7)) = None"
    by (simp add: getBrowseRequest_def initial_state_def)
  have t: "details_tabId \<lparr>details_tabId = 7, details_url = ''http://example.test/'',
                           details_method = ''post'', requestBody = None\<rparr> =
           send_tabId (content_type_details 7)"
    by (simp add: content_type_details_def)
  show ?thesis
    using header_send_needs_snapshot
        [where env = example_env and s = initial_state and details = "content_type_details 7"
           and before = "\<lparr>details_tabId = 7, details_url = ''http://example.test/'',
                      details_method = ''post'', requestBody = None\<rparr>",
         OF example_contentTypeHeader] n t
    by simp
qed

section \<open>Reconstruction of the request body\<close>

lemma join_no_separator: "join [] xs = concat xs"
  by (induction "[] :: string" xs rule: join.induct) simp_all

lemma forEach_value_appends:
  "forEach_value env n vs params = params @ map (\<lambda>v. (n, fieldContent env v)) vs"
  by (induction vs arbitrary: params) (simp_all add: append_param_def)

lemma for_in_formData_appends:
  "for_in_formData env fd params =
     params @ concat (map (\<lambda>(n, vs). map (\<lambda>v. (n, fieldContent env v)) vs) fd)"
  by (induction fd arbitrary: params) (auto simp: forEach_value_appends)

lemma hex_digit_not_separator:
  assumes "k < 16"
  shows "hex_digit k \<noteq> CHR ''&'' \<and> hex_digit k \<noteq> CHR ''=''"
proof -
  have a: "(of_char (hex_digit k) :: nat) = (if k < 10 then 48 + k else 55 + k)"
    using assms by (simp add: hex_digit_def)
  have b: "(of_char CHR ''&'' :: nat) = 38" "(of_char CHR ''='' :: nat) = 61"
    by simp_all
  show ?thesis
  proof (intro conjI notI)
    assume "hex_digit k = CHR ''&''"
    then have "(of_char (hex_digit k) :: nat) = 38" by simp
    with a show False by (simp split: if_splits)
  next
    assume "hex_digit k = CHR ''=''"
    then have "(of_char (hex_digit k) :: nat) = 61" by simp
    with a assms show False by (simp split: if_splits)
  qed
qed

lemma of_char_less_256: "(of_char c :: nat) < 256"
  by (cases c) simp

lemma urlencode_byte_no_separator:
  "CHR ''&'' \<notin> set (urlencode_byte c) \<and> CHR ''='' \<notin> set (urlencode_byte c)"
proof -
  have d: "(of_char c :: nat) div 16 < 16"
    using of_char_less_256 [of c] by (simp add: less_mult_imp_div_less)
  have m: "(of_char c :: nat) mod 16 < 16"
    by simp
  have n: "c = CHR ''&'' \<Longrightarrow> (of_char c :: nat) = 38" "c = CHR ''='' \<Longrightarrow> (of_char c :: nat) = 61"
    by simp_all
  have h: "hex_digit (of_char c div 16) \<noteq> CHR ''&''" "hex_digit (of_char c div 16) \<noteq> CHR ''=''"
          "hex_digit (of_char c mod 16) \<noteq> CHR ''&''" "hex_digit (of_char c mod 16) \<noteq> CHR ''=''"
    using hex_digit_not_separator [OF d] hex_digit_not_separator [OF m] by simp_all
  show ?thesis
  proof (cases "c = CHR ''&'' \<or> c = CHR ''=''")
    case True
    then show ?thesis
      using h by (auto simp: urlencode_byte_def Let_def)
  next
    case False
    then show ?thesis
      using h by (auto simp: urlencode_byte_def Let_def)
  qed
qed

lemma urlencode_no_separator:
  "CHR ''&'' \<notin> set (urlencode x) \<and> CHR ''='' \<notin> set (urlencode x)"
  using urlencode_byte_no_separator by (auto simp: urlencode_def)

text \<open>
  C8. The body rebuilt from raw segments is the concatenation, in order, of the text of each
  segment: the placeholder naming the file for a segment with a file name, the decoded
  bytes for a segment without a file name and with bytes, and the empty string for a segment
  with neither. A file is never read: its segment gives the placeholder whatever its bytes.
  With a decoder that reads the six bytes of hello and a space as that text, the segments
  [{bytes: "hello "}, {file: "f.bin"}] give hello [Content of 'f.bin'].
\<close>

theorem raw_body_reconstruction:
  "bodyContent env (Some \<lparr>formData = None, raw = Some segs\<rparr>) =
     concat (map (segment_text env) segs) \<and>
   (file' d = Some (c # cs) \<longrightarrow>
      segment_text env d = ''[Content of '' @ [CHR 0x27] @ (c # cs) @ [CHR 0x27] @ '']'') \<and>
   (file' d \<in> {None, Some []} \<and> bytes d = Some b \<longrightarrow> segment_text env d = decode env b) \<and>
   (file' d \<in> {None, Some []} \<and> bytes d = None \<longrightarrow> segment_text env d = []) \<and>
   (decode env [104, 101, 108, 108, 111, 32] = ''hello '' \<longrightarrow>
      bodyContent env
        (Some \<lparr>formData = None,
               raw = Some [\<lparr>bytes = Some [104, 101, 108, 108, 111, 32], file' = None\<rparr>,
                           \<lparr>bytes = None, file' = Some ''f.bin''\<rparr>]\<rparr>) =
      ''hello [Content of 'f.bin']'')"
  by (auto simp: bodyContent_def join_no_separator segment_text_def)

theorem raw_body_reconstruction_witness:
  "bodyContent example_env
     (Some \<lparr>formData = None,
            raw = Some [\<lparr>bytes = Some [104, 101, 108, 108, 111, 32], file' = None\<rparr>,
                        \<lparr>bytes = None, file' = Some ''f.bin''\<rparr>]\<rparr>) =
   ''hello [Content of 'f.bin']''"
proof -
  have d: "decode example_env [104, 101, 108, 108, 111, 32] = ''hello ''"
    by (simp add: example_env_def char_of_def bit_Suc_0_iff)
  show ?thesis
    using raw_body_reconstruction [where env = example_env] d
    by blast
qed

text \<open>
  C9. The body rebuilt from structured form data is the serialization of the name/value
  pairs in the order of the fields and, within a field, of its values, a field with several
  values giving one pair for each: the pairs are written name=value with names and values
  percent-encoded, and joined by an ampersand; an encoded name or value holds no ampersand
  and no equals sign. The snapshot written for the tab has the registry's default name as
  its enctype, the method in upper case and no header edits. The fields a = 1 and b = x y
  give a=1&b=x+y.
\<close>

theorem form_body_reconstruction:
  "for_in_formData env fd [] =
     concat (map (\<lambda>(n, vs). map (\<lambda>v. (n, fieldContent env v)) vs) fd) \<and>
   bodyContent env (Some \<lparr>formData = Some fd, raw = r\<rparr>) =
     join ''&'' (map (\<lambda>(n, v). urlencode n @ ''='' @ urlencode v)
                  (concat (map (\<lambda>(n, vs). map (\<lambda>v. (n, fieldContent env v)) vs) fd))) \<and>
   CHR ''&'' \<notin> set (urlencode x) \<and> CHR ''='' \<notin> set (urlencode x) \<and>
   getBrowseRequest (tabStore (snd (onBeforeRequest env details s))) (details_tabId details) =
     Some \<lparr>url = details_url details,
           method' = toUpperCase (details_method details),
           headers = [],
           body = \<lparr>enctype = getDefaultProcessorName env,
                   content = bodyContent env (requestBody details)\<rparr>\<rparr> \<and>
   bodyContent env
     (Some \<lparr>formData = Some [(''a'', [FormString ''1'']), (''b'', [FormString ''x y''])],
            raw = r\<rparr>) = ''a=1&b=x+y''"
proof -
  have p: "for_in_formData env fd [] =
           concat (map (\<lambda>(n, vs). map (\<lambda>v. (n, fieldContent env v)) vs) fd)"
    by (simp add: for_in_formData_appends)
  have e: "urlencode ''a'' = ''a''" "urlencode ''1'' = ''1''" "urlencode ''b'' = ''b''"
          "urlencode ''x y'' = ''x+y''"
    by (simp_all add: urlencode_def urlencode_byte_def)
  have x: "bodyContent env
             (Some \<lparr>formData = Some [(''a'', [FormString ''1'']), (''b'', [FormString ''x y''])],
                    raw = r\<rparr>) = ''a=1&b=x+y''"
    by (simp add: bodyContent_def params_toString_def append_param_def fieldContent_def e)
  have s: "getBrowseRequest (tabStore (snd (onBeforeRequest env details s)))
             (details_tabId details) =
           Some \<lparr>url = details_url details,
                 method' = toUpperCase (details_method details),
                 headers = [],
                 body = \<lparr>enctype = getDefaultProcessorName env,
                         content = bodyContent env (requestBody details)\<rparr>\<rparr>"
    by (simp add: onBeforeRequest_def getBrowseRequest_def updateBrowseRequest_def)
  have b: "bodyContent env (Some \<lparr>formData = Some fd, raw = r\<rparr>) =
           join ''&'' (map (\<lambda>(n, v). urlencode n @ ''='' @ urlencode v)
                        (concat (map (\<lambda>(n, vs). map (\<lambda>v. (n, fieldContent env v)) vs) fd)))"
    by (simp add: bodyContent_def params_toString_def p)
  from p b s x urlencode_no_separator [of x] show ?thesis by blast
qed

theorem form_body_reconstruction_witness:
  "getBrowseRequest
     (tabStore (snd (onBeforeRequest example_env
        \<lparr>details_tabId = 7, details_url = ''http://example.test/'', details_method = ''post'',
         requestBody =
           Some \<lparr>formData = Some [(''a'', [FormString ''1'']),
                                   (''b'', [FormString ''x y'', FormBuffer [47, 38]])],
                  raw = None\<rparr>\<rparr>
        initial_state))) 7 =
   Some \<lparr>url = ''http://example.test/'', method' = ''POST'', headers = [],
         body = \<lparr>enctype = ''application/x-www-form-urlencoded'',
                 content = ''a=1&b=x+y&b=%2F%26''\<rparr>\<rparr>"
proof -
  let ?fd = "[(''a'', [FormString ''1'']), (''b'', [FormString ''x y'', FormBuffer [47, 38]])]"
  have d: "decode example_env [47, 38] = ''/&''"
    by (simp add: example_env_def char_of_def bit_Suc_0_iff)
  have e: "urlencode ''a'' = ''a''" "urlencode ''1'' = ''1''" "urlencode ''b'' = ''b''"
          "urlencode ''x y'' = ''x+y''" "urlencode ''/&'' = ''%2F%26''"
    by (simp_all add: urlencode_def urlencode_byte_def hex_digit_def char_of_def bit_Suc_0_iff)
  have u: "toUpperCase ''post'' = ''POST''"
    by (simp add: toUpperCase_def char_of_def bit_Suc_0_iff)
  have n: "getDefaultProcessorName example_env = ''application/x-www-form-urlencoded''"
    by (simp add: example_env_def)
  show ?thesis
    using form_body_reconstruction
        [where env = example_env and fd = ?fd and r = None and s = initial_state
           and details =
             "\<lparr>details_tabId = 7, details_url = ''http://example.test/'',
               details_method = ''post'',
               requestBody = Some \<lparr>formData = Some ?fd, raw = None\<rparr>\<rparr>"]
    by (simp add: d e u n fieldContent_def)
qed

section \<open>Loading a snapshot\<close>



section \<open>Tab removal\<close>

text \<open>
  C5 as stated fails: the listener of tab removal removes the store entry and makes no host
  call, so a rule active for the tab stays active; and a header-send event with a
  content-type header that follows for the tab faults, it is not a no-op.
\<close>

theorem tab_removal_counterexample:
  "activeRules (snd (onRemoved 7 (initial_state\<lparr>activeRules := [example_rule 7]\<rparr>))) =
     [example_rule 7] \<and>
   fst (onBeforeSendHeaders example_env (content_type_details 7)
          (snd (onRemoved 7 (initial_state\<lparr>activeRules := [example_rule 7]\<rparr>)))) =
     Some UndefinedDereference"
proof -
  have t: "send_tabId (content_type_details 7) = 7"
    by (simp add: content_type_details_def)
  show ?thesis
    by (simp add: onRemoved_def onBeforeSendHeaders_def example_contentTypeHeader
        getBrowseRequest_def remove_tab_def t)
qed

text \<open>
  C5, amended. The listener of tab removal removes the session store entry of the tab, its
  snapshot and its peer, without a fault; the entries of other tabs, the active rules and
  the host calls are as before (it calls no rule update). A rule active for the tab is
  removed by the next terminal request event of the tab, which is handled without a fault
  and leaves the store entry absent. A header-send event without a content-type header
  that follows is a no-op.
\<close>

theorem tab_removal_clears_store:
  "fst (onRemoved t s) = None \<and>
   getConnection (tabStore (snd (onRemoved t s))) t = None \<and>
   getBrowseRequest (tabStore (snd (onRemoved t s))) t = None \<and>
   (t' \<noteq> t \<longrightarrow>
      getConnection (tabStore (snd (onRemoved t s))) t' = getConnection (tabStore s) t' \<and>
      getBrowseRequest (tabStore (snd (onRemoved t s))) t' = getBrowseRequest (tabStore s) t') \<and>
   activeRules (snd (onRemoved t s)) = activeRules s \<and>
   hostCalls (snd (onRemoved t s)) = hostCalls s \<and>
   posted (snd (onRemoved t s)) = posted s \<and>
   fst (handleResponseCompleted t (snd (onRemoved t s))) = None \<and>
   filter (\<lambda>r. rule_id r = t)
     (activeRules (snd (handleResponseCompleted t (snd (onRemoved t s))))) = [] \<and>
   tabStore (snd (handleResponseCompleted t (snd (onRemoved t s)))) =
     tabStore (snd (onRemoved t s)) \<and>
   (contentTypeHeader details = None \<longrightarrow>
      onBeforeSendHeaders env details (snd (onRemoved t s)) = (None, snd (onRemoved t s)))"
  by (simp add: onRemoved_def remove_tab_def getConnection_def getBrowseRequest_def
      handleResponseCompleted_def updateSessionRules_def onBeforeSendHeaders_def
      filter_other_then_same)

theorem tab_removal_clears_store_witness:
  "getBrowseRequest
     (tabStore (snd (onRemoved 7
        (snd (onBeforeRequest example_env
           \<lparr>details_tabId = 7, details_url = ''http://example.test/'', details_method = ''GET'',
            requestBody = None\<rparr>
           (initial_state\<lparr>activeRules := [example_rule 7]\<rparr>)))))) 7 = None \<and>
   activeRules (snd (onRemoved 7
        (snd (onBeforeRequest example_env
           \<lparr>details_tabId = 7, details_url = ''http://example.test/'', details_method = ''GET'',
            requestBody = None\<rparr>
           (initial_state\<lparr>activeRules := [example_rule 7]\<rparr>))))) = [example_rule 7]"
proof -
  let ?s = "snd (onBeforeRequest example_env
           \<lparr>details_tabId = 7, details_url = ''http://example.test/'', details_method = ''GET'',
            requestBody = None\<rparr>
           (initial_state\<lparr>activeRules := [example_rule 7]\<rparr>))"
  have a: "activeRules ?s = [example_rule 7]"
    by (simp add: onBeforeRequest_def)
  show ?thesis
    using tab_removal_clears_store [where t = 7 and s = ?s] a
    by simp
qed

end
